theory Spec2Isabelle
  imports Main "HOL-Library.Word"
begin

unbundle bit_operations_syntax

section \<open>Data model\<close>

text \<open>
  The firmware targets an 8-bit AVR: \<open>uint8_t\<close> and \<open>uint16_t\<close> are words of 8 and 16
  bits, and the C type \<open>int\<close>, to which every operand of a bitwise operator is promoted,
  has 16 bits.
\<close>

type_synonym uint8_t = "8 word"
type_synonym uint16_t = "16 word"
type_synonym c_int = "16 word"

text \<open>\<open>color.h\<close>: the struct \<open>color_rgb_t\<close>.\<close>

record color_rgb_t =
  red :: uint8_t
  green :: uint8_t
  blue :: uint8_t

text \<open>
  The bit numbers that \<open>pwm.c\<close> takes from the device header \<open>avr/io.h\<close>. The header is
  not part of the repository, so the numbers are a parameter of every operation that uses
  them.
\<close>

record io_bits =
  PA4 :: nat
  PA5 :: nat
  PA6 :: nat
  TOCC3S1 :: nat
  TOCC4S0 :: nat
  TOCC5S0 :: nat
  TOCC3OE :: nat
  TOCC4OE :: nat
  TOCC5OE :: nat
  WGM11 :: nat
  WGM13 :: nat
  CS10 :: nat
  WGM21 :: nat
  WGM23 :: nat
  CS20 :: nat
  COM1A1 :: nat
  COM1A0 :: nat
  COM1B1 :: nat
  COM1B0 :: nat
  COM2A1 :: nat
  COM2A0 :: nat

text \<open>
  The state that \<open>pwm.c\<close> reads and writes: the special function registers it names, and
  its global variable \<open>pwm_color_rgb\<close>.
\<close>

record mcu =
  SREG :: uint8_t
  PORTA :: uint8_t
  DDRA :: uint8_t
  OCR1A :: uint16_t
  OCR1B :: uint16_t
  OCR2A :: uint16_t
  TOCPMSA0 :: uint8_t
  TOCPMSA1 :: uint8_t
  TOCPMCOE :: uint8_t
  ICR1 :: uint16_t
  TCCR1A :: uint8_t
  TCCR1B :: uint8_t
  ICR2 :: uint16_t
  TCCR2A :: uint8_t
  TCCR2B :: uint8_t
  pwm_color_rgb :: color_rgb_t

section \<open>The brightness table\<close>

text \<open>\<open>pwm.c\<close>, \<open>pwm_table\<close>: the 256 precomputed compare values, in the source's rows.\<close>

definition pwm_table :: "uint16_t list" where
  "pwm_table = [
     0, 1, 1, 1, 1, 1, 1, 1, 1, 2, 2, 2, 2, 2, 2, 2, 2, 2, 2, 2, 2, 3,
     3, 3, 3, 3, 3, 3, 4, 4, 4, 4, 4, 4, 5, 5, 5, 5, 5, 6, 6, 6, 6, 7,
     7, 7, 8, 8, 8, 9, 9, 10, 10, 10, 11, 11, 12, 12, 13, 13, 14, 15,
     15, 16, 17, 17, 18, 19, 20, 21, 22, 23, 24, 25, 26, 27, 28, 29,
     31, 32, 33, 35, 36, 38, 40, 41, 43, 45, 47, 49, 52, 54, 56, 59,
     61, 64, 67, 70, 73, 76, 79, 83, 87, 91, 95, 99, 103, 108, 112,
     117, 123, 128, 134, 140, 146, 152, 159, 166, 173, 181, 189, 197,
     206, 215, 225, 235, 245, 256, 267, 279, 292, 304, 318, 332, 347,
     362, 378, 395, 412, 431, 450, 470, 490, 512, 535, 558, 583, 609,
     636, 664, 693, 724, 756, 790, 825, 861, 899, 939, 981, 1024, 1069,
     1117, 1166, 1218, 1272, 1328, 1387, 1448, 1512, 1579, 1649, 1722,
     1798, 1878, 1961, 2048, 2139, 2233, 2332, 2435, 2543, 2656, 2773,
     2896, 3025, 3158, 3298, 3444, 3597, 3756, 3922, 4096, 4277, 4467,
     4664, 4871, 5087, 5312, 5547, 5793, 6049, 6317, 6596, 6889, 7194,
     7512, 7845, 8192, 8555, 8933, 9329, 9742, 10173, 10624, 11094,
     11585, 12098, 12634, 13193, 13777, 14387, 15024, 15689, 16384,
     17109, 17867, 18658, 19484, 20346, 21247, 22188, 23170, 24196,
     25267, 26386, 27554, 28774, 30048, 31378, 32768, 34218, 35733,
     37315, 38967, 40693, 42494, 44376, 46340, 48392, 50534, 52772,
     55108, 57548, 60096, 62757, 65535
   ]"

text \<open>
  The read \<open>pgm_read_word(&(pwm_table[level]))\<close> of \<open>pwm_set_color_rgb\<close>, for an index of
  type \<open>uint8_t\<close>.
\<close>

definition value_at :: "uint8_t \<Rightarrow> uint16_t" where
  "value_at level = pwm_table ! unat level"

section \<open>The operations of \<open>pwm.c\<close>\<close>

text \<open>The macro \<open>_BV(n)\<close>, that is \<open>1 << n\<close>, computed in \<open>int\<close>.\<close>

definition BV :: "nat \<Rightarrow> c_int" where
  "BV n = push_bit n 1"

text \<open>\<open>UINT16_MAX\<close> of \<open>stdint.h\<close>.\<close>

definition UINT16_MAX :: uint16_t where
  "UINT16_MAX = 65535"

text \<open>
  Assignments to an 8-bit register: \<open>reg = m\<close>, \<open>reg |= m\<close> and \<open>reg &= m\<close> for an
  operand \<open>m\<close> of type \<open>int\<close>. The register is promoted to \<open>int\<close>, and the result is
  truncated to 8 bits when it is stored.
\<close>

definition assign8 :: "c_int \<Rightarrow> uint8_t" where
  "assign8 m = ucast m"

definition or_assign8 :: "uint8_t \<Rightarrow> c_int \<Rightarrow> uint8_t" where
  "or_assign8 reg m = ucast ((ucast reg :: c_int) OR m)"

definition and_assign8 :: "uint8_t \<Rightarrow> c_int \<Rightarrow> uint8_t" where
  "and_assign8 reg m = ucast ((ucast reg :: c_int) AND m)"

text \<open>\<open>cli()\<close> clears the global interrupt flag, bit 7 of the status register.\<close>

definition cli :: "mcu \<Rightarrow> mcu" where
  "cli s = s\<lparr>SREG := unset_bit 7 (SREG s)\<rparr>"

definition pwm_init :: "io_bits \<Rightarrow> mcu \<Rightarrow> mcu" where
  "pwm_init b s0 =
    (let s1 = s0\<lparr>PORTA := or_assign8 (PORTA s0) (BV (PA6 b) OR BV (PA5 b) OR BV (PA4 b))\<rparr>;
         s2 = s1\<lparr>DDRA := or_assign8 (DDRA s1) (BV (PA6 b) OR BV (PA5 b) OR BV (PA4 b))\<rparr>;
         s3 = s2\<lparr>OCR1A := 0\<rparr>;
         s4 = s3\<lparr>OCR1B := 0\<rparr>;
         s5 = s4\<lparr>OCR2A := 0\<rparr>;
         s6 = s5\<lparr>TOCPMSA0 := assign8 (BV (TOCC3S1 b))\<rparr>;
         s7 = s6\<lparr>TOCPMSA1 := assign8 (BV (TOCC4S0 b) OR BV (TOCC5S0 b))\<rparr>;
         s8 = s7\<lparr>TOCPMCOE := assign8 (BV (TOCC5OE b) OR BV (TOCC4OE b) OR BV (TOCC3OE b))\<rparr>;
         s9 = s8\<lparr>ICR1 := UINT16_MAX\<rparr>;
         s10 = s9\<lparr>TCCR1A := assign8 (BV (WGM11 b))\<rparr>;
         s11 = s10\<lparr>TCCR1B := assign8 (BV (WGM13 b) OR BV (CS10 b))\<rparr>;
         s12 = s11\<lparr>ICR2 := UINT16_MAX\<rparr>;
         s13 = s12\<lparr>TCCR2A := assign8 (BV (WGM21 b))\<rparr>;
         s14 = s13\<lparr>TCCR2B := assign8 (BV (WGM23 b) OR BV (CS20 b))\<rparr>
     in s14)"

definition pwm_enable :: "io_bits \<Rightarrow> mcu \<Rightarrow> mcu" where
  "pwm_enable b s0 =
    (let tmp = SREG s0;
         s1 = cli s0;
         s2 = s1\<lparr>PORTA := or_assign8 (PORTA s1) (BV (PA6 b) OR BV (PA5 b) OR BV (PA4 b))\<rparr>;
         s3 = s2\<lparr>TCCR1A := or_assign8 (TCCR1A s2)
                (BV (COM1A1 b) OR BV (COM1A0 b) OR BV (COM1B1 b) OR BV (COM1B0 b))\<rparr>;
         s4 = s3\<lparr>TCCR2A := or_assign8 (TCCR2A s3) (BV (COM2A1 b) OR BV (COM2A0 b))\<rparr>;
         s5 = s4\<lparr>SREG := tmp\<rparr>
     in s5)"

definition pwm_disable :: "io_bits \<Rightarrow> mcu \<Rightarrow> mcu" where
  "pwm_disable b s0 =
    (let tmp = SREG s0;
         s1 = cli s0;
         s2 = s1\<lparr>TCCR1A := and_assign8 (TCCR1A s1)
                (NOT (BV (COM1A1 b) OR BV (COM1A0 b) OR BV (COM1B1 b) OR BV (COM1B0 b)))\<rparr>;
         s3 = s2\<lparr>TCCR2A := and_assign8 (TCCR2A s2) (NOT (BV (COM2A1 b) OR BV (COM2A0 b)))\<rparr>;
         s4 = s3\<lparr>PORTA := or_assign8 (PORTA s3) (BV (PA6 b) OR BV (PA5 b) OR BV (PA4 b))\<rparr>;
         s5 = s4\<lparr>SREG := tmp\<rparr>
     in s5)"

definition pwm_set_compare_values :: "uint16_t \<Rightarrow> uint16_t \<Rightarrow> uint16_t \<Rightarrow> mcu \<Rightarrow> mcu" where
  "pwm_set_compare_values red_v green_v blue_v s0 =
    (let tmp = SREG s0;
         s1 = cli s0;
         s2 = s1\<lparr>OCR1A := red_v\<rparr>;
         s3 = s2\<lparr>OCR1B := green_v\<rparr>;
         s4 = s3\<lparr>OCR2A := blue_v\<rparr>;
         s5 = s4\<lparr>SREG := tmp\<rparr>
     in s5)"

text \<open>
  \<open>pwm_set_color_rgb\<close> receives a pointer; the model receives the struct it points to,
  read once on entry.
\<close>

definition pwm_set_color_rgb :: "color_rgb_t \<Rightarrow> mcu \<Rightarrow> mcu" where
  "pwm_set_color_rgb color s0 =
    (let s1 = s0\<lparr>pwm_color_rgb := color\<rparr>;
         red_value = value_at (red color);
         green_value = value_at (green color);
         blue_value = value_at (blue color)
     in pwm_set_compare_values red_value green_value blue_value s1)"

text \<open>
  \<open>pwm_get_color_rgb\<close> returns the address of \<open>pwm_color_rgb\<close>; the model returns what
  the caller reads through it.
\<close>

definition pwm_get_color_rgb :: "mcu \<Rightarrow> color_rgb_t" where
  "pwm_get_color_rgb s = pwm_color_rgb s"

text \<open>
  The initialiser of the global: \<open>color_rgb_t pwm_color_rgb = {0, 0, 0};\<close>. A state is a
  startup state when the variable still holds it; the registers are whatever the
  hardware left in them.
\<close>

definition pwm_color_rgb_initialiser :: color_rgb_t where
  "pwm_color_rgb_initialiser = \<lparr>red = 0, green = 0, blue = 0\<rparr>"

definition startup :: "mcu \<Rightarrow> bool" where
  "startup s \<longleftrightarrow> pwm_color_rgb s = pwm_color_rgb_initialiser"

text \<open>
  The LEDs are active low (\<open>// Disable LEDs (active low)\<close>): the three pins are at the
  inactive level when their port bits are set and the pins are in normal port operation,
  the compare outputs of both timers disconnected, which is what \<open>pwm_disable\<close>
  establishes.
\<close>

definition pins_inactive :: "io_bits \<Rightarrow> mcu \<Rightarrow> bool" where
  "pins_inactive b s \<longleftrightarrow>
     bit (PORTA s) (PA4 b) \<and> bit (PORTA s) (PA5 b) \<and> bit (PORTA s) (PA6 b) \<and>
     \<not> bit (TCCR1A s) (COM1A1 b) \<and> \<not> bit (TCCR1A s) (COM1A0 b) \<and>
     \<not> bit (TCCR1A s) (COM1B1 b) \<and> \<not> bit (TCCR1A s) (COM1B0 b) \<and>
     \<not> bit (TCCR2A s) (COM2A1 b) \<and> \<not> bit (TCCR2A s) (COM2A0 b)"

text \<open>The port pins are bits of the 8-bit register \<open>PORTA\<close>.\<close>

definition port_bits_ok :: "io_bits \<Rightarrow> bool" where
  "port_bits_ok b \<longleftrightarrow> PA4 b < 8 \<and> PA5 b < 8 \<and> PA6 b < 8"

text \<open>
  Sample inputs: an assignment of bit numbers in the register layout of the
  ATtiny441/841, the device family whose registers \<open>pwm.c\<close> names, and a state with
  every register cleared. The numbers are not taken from the repository; the theorems
  about the driver hold for every assignment and use this one as an example only.
\<close>

definition attiny841 :: io_bits where
  "attiny841 =
    \<lparr>PA4 = 4, PA5 = 5, PA6 = 6,
     TOCC3S1 = 7, TOCC4S0 = 0, TOCC5S0 = 2,
     TOCC3OE = 3, TOCC4OE = 4, TOCC5OE = 5,
     WGM11 = 1, WGM13 = 4, CS10 = 0,
     WGM21 = 1, WGM23 = 4, CS20 = 0,
     COM1A1 = 7, COM1A0 = 6, COM1B1 = 5, COM1B0 = 4,
     COM2A1 = 7, COM2A0 = 6\<rparr>"

definition cleared :: mcu where
  "cleared =
    \<lparr>SREG = 0, PORTA = 0, DDRA = 0, OCR1A = 0, OCR1B = 0, OCR2A = 0,
     TOCPMSA0 = 0, TOCPMSA1 = 0, TOCPMCOE = 0, ICR1 = 0, TCCR1A = 0, TCCR1B = 0,
     ICR2 = 0, TCCR2A = 0, TCCR2B = 0, pwm_color_rgb = pwm_color_rgb_initialiser\<rparr>"

section \<open>The table\<close>

lemma length_pwm_table: "length pwm_table = 256"
  by (simp add: pwm_table_def)

text \<open>An index of type \<open>uint8_t\<close> never reads outside the table.\<close>

lemma value_at_in_range: "unat (level :: uint8_t) < length pwm_table"
  using unsigned_less [of level, where ?'a = nat] by (simp add: length_pwm_table)

lemma sorted_pwm_table: "sorted pwm_table"
  apply (simp only: pwm_table_def sorted2 sorted1)
  apply simp
  done

lemma unat_next_level: "unat (L + 1) = Suc (unat L)" if "L < 255" for L :: uint8_t
proof -
  from that have "unat L < 255"
    by (simp add: word_less_nat_alt)
  then have "unat L + unat (1 :: uint8_t) < 2 ^ LENGTH(8)"
    by simp
  then have "unat (L + 1) = unat L + unat (1 :: uint8_t)"
    by (simp only: unat_add_lem)
  then show ?thesis
    by simp
qed

text \<open>
  C2: the brightness table is monotonically non-decreasing: for every level \<open>L\<close> below 255,
  the entry at \<open>L\<close> is at most the entry at \<open>L + 1\<close>.
\<close>

theorem pwm_table_monotone: "\<forall>L<255. value_at L \<le> value_at (L + 1)"
proof (intro allI impI)
  fix L :: uint8_t
  assume below: "L < 255"
  have "unat L \<le> unat (L + 1)"
    by (simp add: unat_next_level [OF below])
  moreover have "unat (L + 1) < length pwm_table"
    by (rule value_at_in_range)
  ultimately have "pwm_table ! unat L \<le> pwm_table ! unat (L + 1)"
    by (rule sorted_nth_mono [OF sorted_pwm_table])
  then show "value_at L \<le> value_at (L + 1)"
    by (simp add: value_at_def)
qed

theorem pwm_table_monotone_witness:
  "(20 :: uint8_t) < 255 \<and> value_at 20 \<le> value_at (20 + 1) \<and> value_at 20 = 2 \<and> value_at 21 = 3"
proof -
  have below: "(20 :: uint8_t) < 255"
    by simp
  from pwm_table_monotone have "(20 :: uint8_t) < 255 \<longrightarrow> value_at 20 \<le> value_at (20 + 1)"
    by (rule spec)
  from this below have "value_at 20 \<le> value_at (20 + 1)"
    by (rule mp)
  moreover have "value_at 20 = 2" and "value_at 21 = 3"
    by (simp_all add: value_at_def pwm_table_def)
  ultimately show ?thesis
    using below by (intro conjI)
qed

text \<open>
  C3: the endpoints of the table are fixed: the entry at level 0 is 0, the entry at level
  255 is 65535, and that is the largest 16-bit value.
\<close>

theorem pwm_table_endpoints:
  "value_at 0 = 0 \<and> value_at 255 = 65535 \<and> unat (value_at 255) = 2 ^ 16 - 1
    \<and> (\<forall>w :: uint16_t. w \<le> value_at 255)"
proof -
  have top: "value_at 255 = 65535"
    by (simp add: value_at_def pwm_table_def)
  have bottom: "value_at 0 = 0"
    by (simp add: value_at_def pwm_table_def)
  have largest: "unat (value_at 255) = 2 ^ 16 - 1"
    by (simp add: top)
  have "(65535 :: uint16_t) = - 1"
    by simp
  then have "\<forall>w :: uint16_t. w \<le> value_at 255"
    by (simp only: top word_n1_ge simp_thms)
  with bottom top largest show ?thesis
    by (intro conjI)
qed

section \<open>Register assignments\<close>

lemma or_assign8_idem: "or_assign8 (or_assign8 reg m) m = or_assign8 reg m"
  by (rule bit_eqI) (auto simp add: or_assign8_def bit_simps)

lemma and_assign8_idem: "and_assign8 (and_assign8 reg m) m = and_assign8 reg m"
  by (rule bit_eqI) (auto simp add: and_assign8_def bit_simps)

lemma bit_BV: "bit (BV n) k \<longleftrightarrow> k = n \<and> n < 16"
  by (auto simp add: BV_def bit_simps)

lemma bit_or_assign8: "bit (or_assign8 reg m) k \<longleftrightarrow> k < 8 \<and> (bit reg k \<or> bit m k)"
  by (auto simp add: or_assign8_def bit_simps)

lemma bit_and_assign8: "bit (and_assign8 reg m) k \<longleftrightarrow> k < 8 \<and> bit reg k \<and> bit m k"
  by (auto simp add: and_assign8_def bit_simps)

section \<open>The driver\<close>

text \<open>
  C1: for every color, after \<open>pwm_set_color_rgb\<close> the red, green and blue compare
  registers (\<open>OCR1A\<close>, \<open>OCR1B\<close>, \<open>OCR2A\<close>) hold the table entries at the red, green and
  blue component, all read from the one table of 256 entries; in particular the color
  (128, 128, 128) leaves the entry at level 128 in all three.
\<close>

theorem set_color_compare_registers:
  "OCR1A (pwm_set_color_rgb c s) = value_at (red c)
    \<and> OCR1B (pwm_set_color_rgb c s) = value_at (green c)
    \<and> OCR2A (pwm_set_color_rgb c s) = value_at (blue c)
    \<and> value_at (red c) = pwm_table ! unat (red c)
    \<and> value_at (green c) = pwm_table ! unat (green c)
    \<and> value_at (blue c) = pwm_table ! unat (blue c)
    \<and> length pwm_table = 256
    \<and> (let s' = pwm_set_color_rgb \<lparr>red = 128, green = 128, blue = 128\<rparr> s
       in OCR1A s' = value_at 128 \<and> OCR1B s' = value_at 128 \<and> OCR2A s' = value_at 128)"
  by (simp add: pwm_set_color_rgb_def pwm_set_compare_values_def cli_def value_at_def
      length_pwm_table)

text \<open>
  C4: round trip: for every color \<open>c\<close>, \<open>pwm_get_color_rgb\<close> right after
  \<open>pwm_set_color_rgb\<close> of \<open>c\<close> gives \<open>c\<close> back, all three components.
\<close>

theorem get_after_set_color: "pwm_get_color_rgb (pwm_set_color_rgb c s) = c"
  by (simp add: pwm_get_color_rgb_def pwm_set_color_rgb_def pwm_set_compare_values_def
      cli_def)

text \<open>
  C5: when \<open>pwm_init\<close> is the first operation from a startup state, right after it
  \<open>pwm_get_color_rgb\<close> gives the color (0, 0, 0) and the three compare registers are zero.
\<close>

theorem init_from_startup:
  assumes "startup s"
  shows "pwm_get_color_rgb (pwm_init b s) = \<lparr>red = 0, green = 0, blue = 0\<rparr>
    \<and> OCR1A (pwm_init b s) = 0 \<and> OCR1B (pwm_init b s) = 0 \<and> OCR2A (pwm_init b s) = 0"
  using assms
  by (simp add: startup_def pwm_color_rgb_initialiser_def pwm_get_color_rgb_def pwm_init_def)

theorem init_from_startup_witness:
  "startup cleared
    \<and> pwm_get_color_rgb (pwm_init attiny841 cleared) = \<lparr>red = 0, green = 0, blue = 0\<rparr>
    \<and> OCR1A (pwm_init attiny841 cleared) = 0 \<and> OCR1B (pwm_init attiny841 cleared) = 0
    \<and> OCR2A (pwm_init attiny841 cleared) = 0"
proof -
  have start: "startup cleared"
    by (simp add: startup_def cleared_def)
  from start init_from_startup [OF start, of attiny841] show ?thesis
    by (intro conjI) simp_all
qed

text \<open>
  C6: for every state, whatever the global interrupt flag was, each of \<open>pwm_enable\<close>,
  \<open>pwm_disable\<close> and \<open>pwm_set_color_rgb\<close> leaves the status register \<open>SREG\<close> as it was
  before the call.
\<close>

theorem interrupt_flag_restored:
  "SREG (pwm_enable b s) = SREG s \<and> SREG (pwm_disable b s) = SREG s
    \<and> SREG (pwm_set_color_rgb c s) = SREG s"
  by (simp add: pwm_enable_def pwm_disable_def pwm_set_color_rgb_def
      pwm_set_compare_values_def cli_def)

text \<open>
  C7: \<open>pwm_disable\<close> is idempotent: from any state, calling it twice in a row leaves the
  whole state (registers, stored color, interrupt flag) as calling it once does.
\<close>

theorem disable_idempotent: "pwm_disable b (pwm_disable b s) = pwm_disable b s"
  by (simp add: pwm_disable_def cli_def or_assign8_idem and_assign8_idem)

text \<open>
  C8: for every stored color and every state, \<open>pwm_enable\<close> followed by \<open>pwm_disable\<close>
  leaves the output pins at the inactive level, the port pins being bits of \<open>PORTA\<close>.
\<close>

theorem enable_disable_pins_inactive:
  assumes "port_bits_ok b"
  shows "pins_inactive b (pwm_disable b (pwm_enable b s))"
  using assms
  by (simp add: pins_inactive_def port_bits_ok_def pwm_disable_def cli_def
      bit_or_assign8 bit_and_assign8 bit_BV bit_simps)

theorem enable_disable_pins_inactive_witness:
  "port_bits_ok attiny841
    \<and> pins_inactive attiny841
        (pwm_disable attiny841 (pwm_enable attiny841
          (pwm_set_color_rgb \<lparr>red = 255, green = 0, blue = 0\<rparr> cleared)))
    \<and> PORTA (pwm_disable attiny841 (pwm_enable attiny841
          (pwm_set_color_rgb \<lparr>red = 255, green = 0, blue = 0\<rparr> cleared))) = 112"
proof -
  have ok: "port_bits_ok attiny841"
    by (simp add: port_bits_ok_def attiny841_def)
  have "PORTA (pwm_disable attiny841 (pwm_enable attiny841
          (pwm_set_color_rgb \<lparr>red = 255, green = 0, blue = 0\<rparr> cleared))) = 112"
    by (simp add: pwm_disable_def pwm_enable_def pwm_set_color_rgb_def
        pwm_set_compare_values_def cli_def cleared_def attiny841_def or_assign8_def BV_def)
  with ok enable_disable_pins_inactive [OF ok] show ?thesis
    by (intro conjI) simp_all
qed

text \<open>
  C9: the stored color is overwritten by \<open>pwm_set_color_rgb\<close> only: for every state,
  \<open>pwm_init\<close>, \<open>pwm_enable\<close> and \<open>pwm_disable\<close> leave it unchanged.
\<close>

theorem stored_color_unchanged:
  "pwm_color_rgb (pwm_init b s) = pwm_color_rgb s
    \<and> pwm_color_rgb (pwm_enable b s) = pwm_color_rgb s
    \<and> pwm_color_rgb (pwm_disable b s) = pwm_color_rgb s"
  by (simp add: pwm_init_def pwm_enable_def pwm_disable_def cli_def)

text \<open>
  C10: \<open>pwm_enable\<close> is idempotent: from any state, calling it twice in a row leaves the
  whole state as calling it once does.
\<close>

theorem enable_idempotent: "pwm_enable b (pwm_enable b s) = pwm_enable b s"
  by (simp add: pwm_enable_def cli_def or_assign8_idem)

end
